theory Spec2Isabelle
  imports Main "HOL-Library.Sublist"
begin

text \<open>
  The middleware of the domain-mask worker: \<^verbatim>\<open>preMiddleware\<close>, which checks the host of
  a request and computes the URL at the origin, \<^verbatim>\<open>headersMiddleware\<close>, which prepares the
  forwarded headers and the canonical link, and \<^verbatim>\<open>postMiddleware\<close>, which rewrites the
  headers of the response. What the platform provides (strings, \<^verbatim>\<open>Headers\<close>, \<^verbatim>\<open>URL\<close>)
  is modelled first, then the middleware as it is written, then the URL rewrite of the
  specification; the theorems follow the definitions.
\<close>

section \<open>JavaScript strings\<close>

text \<open>
  The strings the middleware handles are header values, URLs and the two configured
  domains. A header value is a byte string, and the platform hands it to the script with
  one code unit per byte, so \<^typ>\<open>string\<close> (a list of 8-bit characters) is the code units
  themselves.
\<close>

text \<open>\<^verbatim>\<open>s.includes(t)\<close>: \<open>t\<close> occurs in \<open>s\<close>.\<close>

fun str_includes :: "string \<Rightarrow> string \<Rightarrow> bool" where
  "str_includes [] t = (t = [])"
| "str_includes (c # cs) t = (prefix t (c # cs) \<or> str_includes cs t)"

text \<open>
  \<^verbatim>\<open>GetSubstitution\<close> of ECMAScript for a pattern without capture groups: in the
  replacement text of \<^verbatim>\<open>replace\<close> and \<^verbatim>\<open>replaceAll\<close>, \<^verbatim>\<open>$$\<close> stands for a dollar
  sign, \<^verbatim>\<open>$&\<close> for the matched text, \<^verbatim>\<open>$`\<close> for the text before the match and
  \<^verbatim>\<open>$'\<close> for the text after it; every other character, and a dollar sign followed by
  anything else, is copied.
\<close>

fun getSubstitution :: "string \<Rightarrow> string \<Rightarrow> string \<Rightarrow> string \<Rightarrow> string" where
  "getSubstitution matched bef aft [] = []"
| "getSubstitution matched bef aft [c] = [c]"
| "getSubstitution matched bef aft (c # d # t) =
     (if c = CHR ''$'' then
        (if d = CHR ''$'' then CHR ''$'' # getSubstitution matched bef aft t
         else if d = CHR ''&'' then matched @ getSubstitution matched bef aft t
         else if d = CHR 0x60 then bef @ getSubstitution matched bef aft t
         else if d = CHR 0x27 then aft @ getSubstitution matched bef aft t
         else c # getSubstitution matched bef aft (d # t))
      else c # getSubstitution matched bef aft (d # t))"

text \<open>
  \<^verbatim>\<open>s.replaceAll(pat, repl)\<close> with a string pattern: the occurrences of \<open>pat\<close> are
  found from left to right without overlap (an empty pattern matches before every code
  unit and at the end), and each is replaced by the expansion of \<open>repl\<close>. \<open>bef\<close>
  is the part of the original string already passed.
\<close>

function replaceAll_from :: "string \<Rightarrow> string \<Rightarrow> string \<Rightarrow> string \<Rightarrow> string" where
  "replaceAll_from pat repl bef s =
     (if prefix pat s then
        getSubstitution pat bef (drop (length pat) s) repl @
          (if pat = [] then
             (case s of [] \<Rightarrow> [] | c # cs \<Rightarrow> c # replaceAll_from pat repl (bef @ [c]) cs)
           else replaceAll_from pat repl (bef @ pat) (drop (length pat) s))
      else (case s of [] \<Rightarrow> [] | c # cs \<Rightarrow> c # replaceAll_from pat repl (bef @ [c]) cs))"
  by pat_completeness auto
termination
  by (relation "measure (\<lambda>(pat, repl, bef, s). length s)") (auto elim!: prefixE)

declare replaceAll_from.simps [simp del]

definition replaceAll :: "string \<Rightarrow> string \<Rightarrow> string \<Rightarrow> string" where
  "replaceAll s pat repl = replaceAll_from pat repl [] s"

subsection \<open>The regular expression of the cookie rewrite\<close>

text \<open>
  \<^verbatim>\<open>/;\s*Domain=[^;]+/i\<close>. Among the code units of a header value, \<^verbatim>\<open>\s\<close> matches
  tab, line feed, vertical tab, form feed, carriage return, space and the no-break space,
  and the \<^verbatim>\<open>i\<close> flag identifies an ASCII letter with its other case only.
\<close>

definition is_space :: "char \<Rightarrow> bool" where
  "is_space c \<longleftrightarrow> c \<in> {CHR 0x09, CHR 0x0A, CHR 0x0B, CHR 0x0C, CHR 0x0D, CHR 0x20, CHR 0xA0}"

definition ascii_lower :: "char \<Rightarrow> char" where
  "ascii_lower c =
     (let n = (of_char c :: nat) in if 65 \<le> n \<and> n \<le> 90 then char_of (n + 32) else c)"

text \<open>
  The match of the expression at the very start of \<open>s\<close>, as the number of code units it
  spans. Both repetitions are greedy and neither can give anything back: a space is not a
  \<^verbatim>\<open>D\<close>, and nothing follows \<^verbatim>\<open>[^;]+\<close>.
\<close>

definition match_Domain :: "string \<Rightarrow> nat option" where
  "match_Domain s =
     (case s of
        [] \<Rightarrow> None
      | c # r \<Rightarrow>
          if c \<noteq> CHR '';'' then None
          else
            let ws = takeWhile is_space r; r1 = dropWhile is_space r in
            if map ascii_lower (take 7 r1) \<noteq> ''domain='' then None
            else
              let v = takeWhile (\<lambda>x. x \<noteq> CHR '';'') (drop 7 r1) in
              if v = [] then None else Some (1 + length ws + 7 + length v))"

text \<open>
  The leftmost match in \<open>s\<close>, as (text before, matched text, text after); \<open>bef\<close>
  is the text already passed.
\<close>

fun search_Domain :: "string \<Rightarrow> string \<Rightarrow> (string \<times> string \<times> string) option" where
  "search_Domain bef [] = None"
| "search_Domain bef (c # cs) =
     (case match_Domain (c # cs) of
        Some n \<Rightarrow> Some (bef, take n (c # cs), drop n (c # cs))
      | None \<Rightarrow> search_Domain (bef @ [c]) cs)"

text \<open>\<^verbatim>\<open>s.replace(/;\s*Domain=[^;]+/i, repl)\<close>: the leftmost match only.\<close>

definition replace_Domain :: "string \<Rightarrow> string \<Rightarrow> string" where
  "replace_Domain s repl =
     (case search_Domain [] s of
        None \<Rightarrow> s
      | Some (b, m, a) \<Rightarrow> b @ getSubstitution m b a repl @ a)"

text \<open>
  \<^verbatim>\<open>s.replace(/;\s*Domain=[^;]+/gi, repl)\<close>: every match, the search resuming where
  the previous match ended.
\<close>

function replace_Domain_g_from :: "string \<Rightarrow> string \<Rightarrow> string \<Rightarrow> string" where
  "replace_Domain_g_from repl bef [] = []"
| "replace_Domain_g_from repl bef (c # cs) =
     (case match_Domain (c # cs) of
        Some n \<Rightarrow>
          getSubstitution (take n (c # cs)) bef (drop n (c # cs)) repl @
            replace_Domain_g_from repl (bef @ take n (c # cs)) (drop n (c # cs))
      | None \<Rightarrow> c # replace_Domain_g_from repl (bef @ [c]) cs)"
  by pat_completeness auto
termination
  by (relation "measure (\<lambda>(repl, bef, s). length s)")
    (auto simp: match_Domain_def Let_def split: if_splits)

definition replace_Domain_g :: "string \<Rightarrow> string \<Rightarrow> string" where
  "replace_Domain_g s repl = replace_Domain_g_from repl [] s"

section \<open>Headers\<close>

text \<open>
  A \<^verbatim>\<open>Headers\<close> object is a list of name/value pairs. Names are compared without
  regard to ASCII case. The values written below are built from values read from the same
  object, from a serialised URL and from \<^verbatim>\<open>TARGET_DOMAIN\<close>; they are taken to be header
  values already, so the platform's normalisation and validation of a value is not
  repeated here.
\<close>

type_synonym headers = "(string \<times> string) list"

definition same_name :: "string \<Rightarrow> string \<Rightarrow> bool" where
  "same_name a b \<longleftrightarrow> map ascii_lower a = map ascii_lower b"

definition headers_values :: "headers \<Rightarrow> string \<Rightarrow> string list" where
  "headers_values h n = map snd (filter (\<lambda>e. same_name (fst e) n) h)"

fun join_values :: "string list \<Rightarrow> string" where
  "join_values [] = []"
| "join_values [v] = v"
| "join_values (v # w # vs) = v @ '', '' @ join_values (w # vs)"

text \<open>\<^verbatim>\<open>h.get(n)\<close>: \<open>None\<close> is \<^verbatim>\<open>null\<close>; several values are joined by a comma and a space.\<close>

definition headers_get :: "headers \<Rightarrow> string \<Rightarrow> string option" where
  "headers_get h n =
     (case headers_values h n of [] \<Rightarrow> None | v # vs \<Rightarrow> Some (join_values (v # vs)))"

definition headers_delete :: "headers \<Rightarrow> string \<Rightarrow> headers" where
  "headers_delete h n = filter (\<lambda>e. \<not> same_name (fst e) n) h"

definition headers_append :: "headers \<Rightarrow> string \<Rightarrow> string \<Rightarrow> headers" where
  "headers_append h n v = h @ [(n, v)]"

text \<open>\<^verbatim>\<open>h.set(n, v)\<close>: the first entry of that name takes the value and the others go.\<close>

fun headers_set :: "headers \<Rightarrow> string \<Rightarrow> string \<Rightarrow> headers" where
  "headers_set [] n v = [(n, v)]"
| "headers_set (e # h) n v =
     (if same_name (fst e) n then (fst e, v) # headers_delete h n else e # headers_set h n v)"

definition getSetCookie :: "headers \<Rightarrow> string list" where
  "getSetCookie h = headers_values h ''Set-Cookie''"

section \<open>URL objects\<close>

text \<open>
  A \<^verbatim>\<open>URL\<close> object holds the URL record of the URL Standard. The port is kept as the
  \<^verbatim>\<open>port\<close> getter returns it (empty when there is none); a null host, query or fragment
  is \<open>None\<close>.
\<close>

record url =
  url_scheme :: string
  url_username :: string
  url_password :: string
  url_host :: "string option"
  url_port :: string
  url_path :: string
  url_query :: "string option"
  url_fragment :: "string option"

definition protocol :: "url \<Rightarrow> string" where
  "protocol u = url_scheme u @ '':''"

definition hostname :: "url \<Rightarrow> string" where
  "hostname u = (case url_host u of None \<Rightarrow> [] | Some h \<Rightarrow> h)"

definition host :: "url \<Rightarrow> string" where
  "host u =
     (case url_host u of
        None \<Rightarrow> []
      | Some h \<Rightarrow> if url_port u = [] then h else h @ '':'' @ url_port u)"

definition pathname :: "url \<Rightarrow> string" where
  "pathname u = url_path u"

definition search :: "url \<Rightarrow> string" where
  "search u = (case url_query u of None \<Rightarrow> [] | Some q \<Rightarrow> if q = [] then [] else ''?'' @ q)"

definition hash :: "url \<Rightarrow> string" where
  "hash u = (case url_fragment u of None \<Rightarrow> [] | Some f \<Rightarrow> if f = [] then [] else ''#'' @ f)"

text \<open>\<^verbatim>\<open>u.toString()\<close> and \<^verbatim>\<open>u.href\<close>: the URL serialiser.\<close>

definition href :: "url \<Rightarrow> string" where
  "href u =
     url_scheme u @ '':'' @
     (case url_host u of
        Some h \<Rightarrow>
          ''//'' @
          (if url_username u \<noteq> [] \<or> url_password u \<noteq> [] then
             url_username u @ (if url_password u \<noteq> [] then '':'' @ url_password u else []) @ ''@''
           else []) @
          h @ (if url_port u = [] then [] else '':'' @ url_port u)
      | None \<Rightarrow> if prefix ''//'' (url_path u) then ''/.'' else []) @
     url_path u @
     (case url_query u of None \<Rightarrow> [] | Some q \<Rightarrow> ''?'' @ q) @
     (case url_fragment u of None \<Rightarrow> [] | Some f \<Rightarrow> ''#'' @ f)"

definition special_scheme :: "string \<Rightarrow> bool" where
  "special_scheme sc \<longleftrightarrow> sc \<in> {''ftp'', ''file'', ''http'', ''https'', ''ws'', ''wss''}"

definition is_special :: "url \<Rightarrow> bool" where
  "is_special u \<longleftrightarrow> special_scheme (url_scheme u)"

text \<open>A URL such as \<^verbatim>\<open>mailto:a@b\<close> or \<^verbatim>\<open>data:,x\<close> has an opaque path and no host.\<close>

definition has_opaque_path :: "url \<Rightarrow> bool" where
  "has_opaque_path u \<longleftrightarrow> url_host u = None \<and> \<not> prefix ''/'' (url_path u)"

text \<open>
  The setters parse the assigned value again. Every value assigned in this program was
  read from a getter of a parsed URL, and such a value parses to itself: a host name to
  the same host, a path to the same path (a leading slash is supplied when it is missing),
  a query to the same query. An assignment that the standard ignores (an empty host, a
  URL with an opaque path) leaves the URL as it is.
\<close>

definition set_hostname :: "url \<Rightarrow> string \<Rightarrow> url" where
  "set_hostname u v = (if has_opaque_path u \<or> v = [] then u else u\<lparr>url_host := Some v\<rparr>)"

text \<open>
  \<^verbatim>\<open>u.host = v\<close>: the host, and the port when the value has one (\<^verbatim>\<open>name:port\<close>; the
  colons of a bracketed IPv6 literal belong to the host).
\<close>

definition set_host :: "url \<Rightarrow> string \<Rightarrow> url" where
  "set_host u v =
     (if has_opaque_path u \<or> v = [] then u
      else
        let h = (if prefix ''['' v then takeWhile (\<lambda>x. x \<noteq> CHR '']'') v @ '']''
                 else takeWhile (\<lambda>x. x \<noteq> CHR '':'') v);
            p = drop (length h + 1) v
        in if h = [] then u
           else u\<lparr>url_host := Some h, url_port := (if p = [] then url_port u else p)\<rparr>)"

definition set_pathname :: "url \<Rightarrow> string \<Rightarrow> url" where
  "set_pathname u v =
     (if has_opaque_path u then u
      else if v = [] then u\<lparr>url_path := (if is_special u then ''/'' else [])\<rparr>
      else u\<lparr>url_path := (if prefix ''/'' v then v else ''/'' @ v)\<rparr>)"

definition set_search :: "url \<Rightarrow> string \<Rightarrow> url" where
  "set_search u v =
     (if v = [] then u\<lparr>url_query := None\<rparr>
      else u\<lparr>url_query := Some (if prefix ''?'' v then drop 1 v else v)\<rparr>)"

text \<open>
  \<^verbatim>\<open>new URL(input, base)\<close> is the platform's parser. The middleware is modelled over any
  such parser: \<open>None\<close> stands for the \<^verbatim>\<open>TypeError\<close> that the constructor throws, and
  the second argument is absent for \<^verbatim>\<open>new URL(input)\<close>.
\<close>

type_synonym url_parser = "string \<Rightarrow> string option \<Rightarrow> url option"

datatype exn = TypeError

section \<open>The middleware\<close>

text \<open>
  The bindings of the worker, the request, and the per-request context of the router:
  the response under construction and the variables \<^verbatim>\<open>targetURL\<close>, \<^verbatim>\<open>requestURL\<close>
  and \<^verbatim>\<open>forwardHeaders\<close> (the fields \<open>var_\<close>...), typed as the route factory declares them.
\<close>

record env =
  ALIAS_DOMAIN :: string
  TARGET_DOMAIN :: string
  ENVIRONMENT :: string

record request =
  req_url :: string
  req_headers :: headers

record response =
  status :: nat
  body :: string
  headers :: headers

record ctx =
  res :: response
  var_targetURL :: url
  var_requestURL :: url
  var_forwardHeaders :: headers

text \<open>
  \<^verbatim>\<open>c.text(text, status)\<close> answers with that body and status; \<^verbatim>\<open>c.header(n, v)\<close> sets a
  header of the response.
\<close>

definition c_text :: "ctx \<Rightarrow> string \<Rightarrow> nat \<Rightarrow> ctx" where
  "c_text c t st = c\<lparr>res := (res c)\<lparr>status := st, body := t\<rparr>\<rparr>"

definition c_header :: "ctx \<Rightarrow> string \<Rightarrow> string \<Rightarrow> ctx" where
  "c_header c n v = c\<lparr>res := (res c)\<lparr>headers := headers_set (headers (res c)) n v\<rparr>\<rparr>"

text \<open>\<^verbatim>\<open>eqHost\<close>: the host names without a leading \<^verbatim>\<open>www.\<close>\<close>

definition strip_www :: "string \<Rightarrow> string" where
  "strip_www a = (if prefix ''www.'' a then drop 4 a else a)"

definition eqHost :: "string \<Rightarrow> string \<Rightarrow> bool" where
  "eqHost a b \<longleftrightarrow> strip_www a = strip_www b"

text \<open>
  \<^verbatim>\<open>normailzeUrl\<close> takes a URL object or a string; a string that does not start with
  \<^verbatim>\<open>http://\<close> or \<^verbatim>\<open>https://\<close> gets \<^verbatim>\<open>https://\<close> in front before it is parsed. The
  result is a fresh URL parsed from the serialisation, with the host assigned once more.
\<close>

datatype url_arg = UrlString string | UrlObject url

definition normailzeUrl :: "url_parser \<Rightarrow> url_arg \<Rightarrow> url option" where
  "normailzeUrl newURL arg =
     (case (case arg of
              UrlString s \<Rightarrow>
                newURL (if \<not> (prefix ''http://'' s \<or> prefix ''https://'' s) then ''https://'' @ s else s)
                  None
            | UrlObject u \<Rightarrow> Some u) of
        None \<Rightarrow> None
      | Some u \<Rightarrow>
          (case newURL (href u) None of
             None \<Rightarrow> None
           | Some normalized \<Rightarrow> Some (set_host normalized (host u))))"

text \<open>
  A middleware receives the rest of the chain as \<open>next\<close>. The router catches what a later
  handler throws and turns it into a response, so \<open>next\<close> always comes back with a
  context; what the middleware itself throws is the \<open>Inl\<close> result.
\<close>

definition preMiddleware ::
    "url_parser \<Rightarrow> env \<Rightarrow> request \<Rightarrow> (ctx \<Rightarrow> ctx) \<Rightarrow> ctx \<Rightarrow> exn + ctx" where
  "preMiddleware newURL e req next c =
     (case newURL (req_url req) None of
        None \<Rightarrow> Inl TypeError
      | Some reqUrl \<Rightarrow>
     (case normailzeUrl newURL (UrlString (ALIAS_DOMAIN e)) of
        None \<Rightarrow> Inl TypeError
      | Some aliasDomain \<Rightarrow>
     (case normailzeUrl newURL (UrlString (TARGET_DOMAIN e)) of
        None \<Rightarrow> Inl TypeError
      | Some targetURL \<Rightarrow>
          if hostname reqUrl \<noteq> hostname aliasDomain then Inr (c_text c ''Not allowed'' 403)
          else
            let c1 = c\<lparr>var_requestURL := reqUrl\<rparr>;
                t1 = set_pathname targetURL (pathname reqUrl);
                t2 = set_search t1 (search reqUrl);
                c2 = c1\<lparr>var_targetURL := t2\<rparr>
            in Inr (next c2))))"

text \<open>
  \<^verbatim>\<open>postMiddleware\<close> runs the rest of the chain first and then edits the headers of the
  response in three steps, numbered as in the source. Step 1, the redirect: the constant
  the source calls \<^verbatim>\<open>aliasHostname\<close> is the host name of the variable \<^verbatim>\<open>targetURL\<close>.
\<close>

definition rewrite_Location :: "url_parser \<Rightarrow> string \<Rightarrow> headers \<Rightarrow> headers" where
  "rewrite_Location newURL aliasHostname h =
     (case headers_get h ''Location'' of
        None \<Rightarrow> h
      | Some loc \<Rightarrow>
          if loc = [] then h
          else
            (case newURL loc (Some (''https://'' @ aliasHostname)) of
               None \<Rightarrow> h
             | Some targetLoc \<Rightarrow>
                 if eqHost (hostname targetLoc) aliasHostname then
                   headers_set h ''Location'' (href (set_hostname targetLoc aliasHostname))
                 else h))"

text \<open>Step 2, the cookies.\<close>

definition rewrite_SetCookie :: "string \<Rightarrow> headers \<Rightarrow> headers" where
  "rewrite_SetCookie target h =
     (let getAll = getSetCookie h in
      if getAll \<noteq> [] then
        foldl (\<lambda>h' cki. headers_append h' ''Set-Cookie'' (replace_Domain cki (''; Domain='' @ target)))
          (headers_delete h ''Set-Cookie'') getAll
      else
        (case headers_get h ''Set-Cookie'' of
           None \<Rightarrow> h
         | Some one \<Rightarrow>
             if one = [] then h
             else headers_set h ''Set-Cookie'' (replace_Domain_g one (''; Domain='' @ target))))"

text \<open>Step 3, the content security policy and the transport security header.\<close>

definition patch_CSP :: "string \<Rightarrow> headers \<Rightarrow> headers" where
  "patch_CSP target h =
     headers_delete
       (case headers_get h ''Content-Security-Policy'' of
          None \<Rightarrow> h
        | Some csp \<Rightarrow>
            if str_includes csp target then
              headers_set h ''Content-Security-Policy'' (replaceAll csp target target)
            else h)
       ''Strict-Transport-Security''"

definition postMiddleware :: "url_parser \<Rightarrow> env \<Rightarrow> (ctx \<Rightarrow> ctx) \<Rightarrow> ctx \<Rightarrow> ctx" where
  "postMiddleware newURL e next c =
     (let c1 = next c;
          aliasHostname = hostname (var_targetURL c1);
          h1 = rewrite_Location newURL aliasHostname (headers (res c1));
          h2 = rewrite_SetCookie (TARGET_DOMAIN e) h1;
          h3 = patch_CSP (TARGET_DOMAIN e) h2
      in c1\<lparr>res := (res c1)\<lparr>headers := h3\<rparr>\<rparr>)"

text \<open>\<^verbatim>\<open>headersMiddleware\<close>; the content type it looks at is the request's.\<close>

definition headersMiddleware ::
    "url_parser \<Rightarrow> env \<Rightarrow> request \<Rightarrow> (ctx \<Rightarrow> ctx) \<Rightarrow> ctx \<Rightarrow> exn + ctx" where
  "headersMiddleware newURL e req next c =
     (let c1 = next (c_header c ''X-Robots-Tag'' ''noindex, nofollow, noarchive, nosnippet'') in
      case newURL (req_url req) None of
        None \<Rightarrow> Inl TypeError
      | Some reqUrl \<Rightarrow>
          let hdr = headers_delete
                      (headers_set
                         (headers_set (req_headers req) ''X-Forwarded-Host'' (host reqUrl))
                         ''X-Forwarded-Proto'' ''https'')
                      ''Accept-Encoding'';
              c2 = c1\<lparr>var_forwardHeaders := hdr\<rparr>
          in
            (case headers_get (req_headers req) ''content-type'' of
               None \<Rightarrow> Inr c2
             | Some contentType \<Rightarrow>
                 if str_includes contentType ''text/html'' then
                   (case newURL (TARGET_DOMAIN e) None of
                      None \<Rightarrow> Inl TypeError
                    | Some maskedURL \<Rightarrow>
                        let m1 = set_pathname maskedURL (pathname reqUrl);
                            m2 = set_search m1 (search reqUrl)
                        in Inr (c_header c2 ''Link''
                                  (''<'' @ href m2 @ ''>; rel='' @ [CHR 0x22] @ ''canonical'' @ [CHR 0x22])))
                 else Inr c2))"

section \<open>The URL rewrite\<close>

text \<open>
  The scheme of a URL string, as the URL Standard reads it: a letter, then letters,
  digits, plus, hyphen and dot, up to a colon. \<open>split_scheme\<close> gives the scheme in lower
  case and what follows the colon.
\<close>

definition is_alpha :: "char \<Rightarrow> bool" where
  "is_alpha c \<longleftrightarrow> (let n = (of_char (ascii_lower c) :: nat) in 97 \<le> n \<and> n \<le> 122)"

definition is_digit :: "char \<Rightarrow> bool" where
  "is_digit c \<longleftrightarrow> (let n = (of_char c :: nat) in 48 \<le> n \<and> n \<le> 57)"

definition scheme_char :: "char \<Rightarrow> bool" where
  "scheme_char c \<longleftrightarrow> is_alpha c \<or> is_digit c \<or> c \<in> {CHR ''+'', CHR ''-'', CHR ''.''}"

definition split_scheme :: "string \<Rightarrow> (string \<times> string) option" where
  "split_scheme s =
     (let sc = takeWhile scheme_char s; rest = dropWhile scheme_char s
      in if sc \<noteq> [] \<and> is_alpha (hd sc) \<and> prefix '':'' rest
         then Some (map ascii_lower sc, drop 1 rest) else None)"

text \<open>
  Modelled from the spec: the forms of a URL string, which \<^verbatim>\<open>src/transform-url.ts\<close>, a
  file that is not among the sources, tells apart. Section 3 of the specification names
  them: absolute, protocol-relative (\<^verbatim>\<open>//host/...\<close>) and relative (\<^verbatim>\<open>/path\<close>); an
  absolute string is one with a scheme.
\<close>

definition has_scheme :: "string \<Rightarrow> bool" where
  "has_scheme s \<longleftrightarrow> split_scheme s \<noteq> None"

text \<open>
  Modelled from the spec: the path, query and fragment of an absolute URL string as the
  string spells them, which invariant 1 of the specification wants preserved verbatim:
  what follows the authority. The statements below compare the output of the rewrite with
  its input through it.
\<close>

definition path_query_fragment :: "string \<Rightarrow> string" where
  "path_query_fragment s =
     (case split_scheme s of
        None \<Rightarrow> []
      | Some (sc, rest) \<Rightarrow>
          if prefix ''//'' rest then
            dropWhile (\<lambda>c. c \<notin> {CHR ''/'', CHR ''?'', CHR ''#''}) (drop 2 rest)
          else rest)"

text \<open>
  Modelled from the spec: the test for a host name below the masked one, which is part of
  \<^verbatim>\<open>src/transform-url.ts\<close>, a file that is not among the sources. Section 4.1 of the
  specification makes it a matter of the suffix: \<^verbatim>\<open>x.maskedhost\<close> matches,
  \<^verbatim>\<open>notmaskedhost\<close> does not.
\<close>

definition is_subdomain :: "string \<Rightarrow> string \<Rightarrow> bool" where
  "is_subdomain h m \<longleftrightarrow>
     length m + 1 < length h \<and> drop (length h - (length m + 1)) h = ''.'' @ m"

text \<open>
  Modelled from the spec: \<^verbatim>\<open>convertToMaskedURL\<close> lives in \<^verbatim>\<open>src/transform-url.ts\<close>,
  which is not among the sources; only its unit test is. The definition follows the five
  steps of the specification's section 4.1. Step 2 resolves the three forms of section 3
  against the masked URL; a string of none of these forms is malformed and comes back as
  it is (the unit test \<^emph>\<open>should handle malformed URLs gracefully\<close> expects
  \<^verbatim>\<open>not-a-valid-url\<close> unchanged), as does a string whose resolution throws. In step 5 a
  host name below the masked one keeps its labels in front of the request's host, which
  is invariant 4 (the unit test \<^emph>\<open>should handle URLs with subdomains\<close> expects
  \<^verbatim>\<open>https://api.httpbin.org/test\<close> to become \<^verbatim>\<open>https://api.example.com/test\<close>).
\<close>

definition convertToMaskedURL :: "url_parser \<Rightarrow> string \<Rightarrow> url \<Rightarrow> url \<Rightarrow> string" where
  "convertToMaskedURL newURL originalUrl maskedURL requestURL =
     (if prefix ''data:'' originalUrl then originalUrl
      else if \<not> has_scheme originalUrl \<and> \<not> prefix ''/'' originalUrl then originalUrl
      else
        (case newURL originalUrl (Some (href maskedURL)) of
           None \<Rightarrow> originalUrl
         | Some r \<Rightarrow>
             if protocol r \<noteq> ''http:'' \<and> protocol r \<noteq> ''https:'' then originalUrl
             else if hostname r = hostname maskedURL then
               protocol requestURL @ ''//'' @ host requestURL @ pathname r @ search r @ hash r
             else if is_subdomain (hostname r) (hostname maskedURL) then
               protocol requestURL @ ''//'' @
                 take (length (hostname r) - length (hostname maskedURL)) (hostname r) @
                 host requestURL @ pathname r @ search r @ hash r
             else originalUrl))"

section \<open>A parser to run the examples\<close>

text \<open>
  The examples below need a parser to run. \<open>parse_url\<close> follows the URL Standard on
  the URLs whose parsing needs no rewriting of characters: printable ASCII without
  quotes, angle brackets, braces, backslash, caret, bar and backquote; no credentials; a
  host made of letters, digits, hyphens and dots whose last label starts with a letter; no
  \<^verbatim>\<open>file:\<close> scheme; no dot segments in the path. Everything else it answers with
  \<open>None\<close>, which the platform's parser need not do. The theorems about the middleware
  hold for every parser; only the examples use this one.
\<close>

definition url_char :: "char \<Rightarrow> bool" where
  "url_char c \<longleftrightarrow>
     (let n = (of_char c :: nat) in
      33 \<le> n \<and> n \<le> 126 \<and> n \<notin> {34, 39, 60, 62, 92, 94, 96, 123, 124, 125})"

definition split_at :: "char \<Rightarrow> string \<Rightarrow> string \<times> string option" where
  "split_at x s =
     (takeWhile (\<lambda>c. c \<noteq> x) s,
      if x \<in> set s then Some (drop 1 (dropWhile (\<lambda>c. c \<noteq> x) s)) else None)"

fun split_slash :: "string \<Rightarrow> string \<Rightarrow> string list" where
  "split_slash acc [] = [acc]"
| "split_slash acc (c # cs) =
     (if c = CHR ''/'' then acc # split_slash [] cs else split_slash (acc @ [c]) cs)"

definition has_dot_segment :: "string \<Rightarrow> bool" where
  "has_dot_segment p \<longleftrightarrow>
     list_ex (\<lambda>seg. map ascii_lower seg \<in> {''.'', ''..'', ''%2e'', ''.%2e'', ''%2e.'', ''%2e%2e''})
       (split_slash [] p)"

definition port_value :: "string \<Rightarrow> nat" where
  "port_value p = foldl (\<lambda>n d. 10 * n + (of_char d - 48)) 0 p"

definition default_port :: "string \<Rightarrow> nat option" where
  "default_port sc =
     (if sc = ''http'' \<or> sc = ''ws'' then Some 80
      else if sc = ''https'' \<or> sc = ''wss'' then Some 443
      else if sc = ''ftp'' then Some 21 else None)"

definition canonical_port :: "string \<Rightarrow> string \<Rightarrow> string" where
  "canonical_port sc p =
     (if p = [] \<or> default_port sc = Some (port_value p) then []
      else let d = dropWhile (\<lambda>c. c = CHR ''0'') p in if d = [] then ''0'' else d)"

definition valid_host :: "string \<Rightarrow> string \<Rightarrow> bool" where
  "valid_host sc h \<longleftrightarrow>
     list_all (\<lambda>c. is_alpha c \<or> is_digit c \<or> c = CHR ''-'' \<or> c = CHR ''.'') h \<and>
     (special_scheme sc \<longrightarrow>
        (case rev (takeWhile (\<lambda>c. c \<noteq> CHR ''.'') (rev h)) of [] \<Rightarrow> False | c # _ \<Rightarrow> is_alpha c))"

text \<open>The authority and the path: \<open>r\<close> is the input after the slashes, up to the query.\<close>

definition parse_authority_path ::
    "string \<Rightarrow> string \<Rightarrow> string option \<Rightarrow> string option \<Rightarrow> url option" where
  "parse_authority_path sc r q f =
     (let auth = takeWhile (\<lambda>c. c \<noteq> CHR ''/'') r;
          p = dropWhile (\<lambda>c. c \<noteq> CHR ''/'') r;
          h = takeWhile (\<lambda>c. c \<noteq> CHR '':'') auth;
          pt = drop (length h + 1) auth
      in if \<not> valid_host sc h \<or> \<not> list_all is_digit pt \<or> 65535 < port_value pt \<or>
            has_dot_segment p
         then None
         else Some \<lparr>url_scheme = sc, url_username = [], url_password = [],
                    url_host = Some (if special_scheme sc then map ascii_lower h else h),
                    url_port = canonical_port sc pt,
                    url_path = (if p = [] \<and> special_scheme sc then ''/'' else p),
                    url_query = q, url_fragment = f\<rparr>)"

definition parse_absolute :: "string \<Rightarrow> string \<Rightarrow> url option" where
  "parse_absolute sc rest =
     (let r1 = fst (split_at CHR ''#'' rest); f = snd (split_at CHR ''#'' rest);
          r = fst (split_at CHR ''?'' r1); q = snd (split_at CHR ''?'' r1)
      in if sc = ''file'' then None
         else if special_scheme sc then
           parse_authority_path sc (dropWhile (\<lambda>c. c = CHR ''/'') r) q f
         else if prefix ''//'' r then parse_authority_path sc (drop 2 r) q f
         else if prefix ''/'' r \<and> has_dot_segment r then None
         else Some \<lparr>url_scheme = sc, url_username = [], url_password = [], url_host = None,
                    url_port = [], url_path = r, url_query = q, url_fragment = f\<rparr>)"

text \<open>A reference without a scheme, against a base with a host.\<close>

definition parse_relative :: "string \<Rightarrow> url \<Rightarrow> url option" where
  "parse_relative input b =
     (let r1 = fst (split_at CHR ''#'' input); f = snd (split_at CHR ''#'' input);
          r = fst (split_at CHR ''?'' r1); q = snd (split_at CHR ''?'' r1);
          dir = rev (dropWhile (\<lambda>c. c \<noteq> CHR ''/'') (rev (url_path b)));
          merged = (if dir = [] then ''/'' else dir) @ r
      in if url_host b = None then None
         else if prefix ''//'' r then
           parse_authority_path (url_scheme b)
             (if is_special b then dropWhile (\<lambda>c. c = CHR ''/'') r else drop 2 r) q f
         else if prefix ''/'' r then
           (if has_dot_segment r then None
            else Some (b\<lparr>url_path := r, url_query := q, url_fragment := f\<rparr>))
         else if r = [] then
           Some (b\<lparr>url_query := (case q of None \<Rightarrow> url_query b | Some x \<Rightarrow> Some x),
                    url_fragment := f\<rparr>)
         else if has_dot_segment merged then None
         else Some (b\<lparr>url_path := merged, url_query := q, url_fragment := f\<rparr>))"

definition parse_with :: "string \<Rightarrow> url option \<Rightarrow> url option" where
  "parse_with input base =
     (if \<not> list_all url_char input then None
      else
        (case split_scheme input of
           Some (sc, rest) \<Rightarrow>
             (case base of
                Some b \<Rightarrow>
                  if special_scheme sc \<and> url_scheme b = sc \<and> \<not> prefix ''//'' rest
                  then parse_relative rest b else parse_absolute sc rest
              | None \<Rightarrow> parse_absolute sc rest)
         | None \<Rightarrow> (case base of None \<Rightarrow> None | Some b \<Rightarrow> parse_relative input b)))"

definition parse_url :: url_parser where
  "parse_url input base =
     (case base of
        None \<Rightarrow> parse_with input None
      | Some bs \<Rightarrow>
          (case parse_with bs None of None \<Rightarrow> None | Some b \<Rightarrow> parse_with input (Some b)))"

section \<open>A configuration, a request and a handler for the examples\<close>

definition https_url :: "string \<Rightarrow> string \<Rightarrow> url" where
  "https_url h p =
     \<lparr>url_scheme = ''https'', url_username = [], url_password = [], url_host = Some h,
      url_port = [], url_path = p, url_query = None, url_fragment = None\<rparr>"

definition example_env :: env where
  "example_env =
     \<lparr>ALIAS_DOMAIN = ''alias.com'', TARGET_DOMAIN = ''https://target.com'',
      ENVIRONMENT = ''production''\<rparr>"

text \<open>The context as \<open>preMiddleware\<close> leaves it for a request of \<^verbatim>\<open>https://alias.com/x\<close>.\<close>

definition example_ctx :: ctx where
  "example_ctx =
     \<lparr>res = \<lparr>status = 200, body = [], headers = []\<rparr>,
      var_targetURL = https_url ''target.com'' ''/x'',
      var_requestURL = https_url ''alias.com'' ''/x'',
      var_forwardHeaders = []\<rparr>"

text \<open>
  A handler at the end of the chain that answers with a given response; the headers set
  on the context so far are put on it, as the router does.
\<close>

definition respond :: "response \<Rightarrow> ctx \<Rightarrow> ctx" where
  "respond r c =
     c\<lparr>res := r\<lparr>headers := foldl (\<lambda>h e. headers_set h (fst e) (snd e)) (headers r)
                                  (headers (res c))\<rparr>\<rparr>"

section \<open>Characters by their codes\<close>

lemma char_of_eq_nat: "(char_of (n::nat) = c) = (n mod 256 = of_char c)"
  by (simp add: char_of_eq_iff take_bit_eq_mod)

lemma eq_char_of_nat: "(c = char_of (n::nat)) = (of_char c = n mod 256)"
  using char_of_eq_nat [of n c] by auto

lemmas lower_defs = ascii_lower_def char_of_eq_nat eq_char_of_nat

lemmas headers_defs = headers_get_def headers_values_def same_name_def lower_defs

lemmas example_defs = example_env_def example_ctx_def respond_def c_header_def

section \<open>Headers: what an edit leaves alone\<close>

lemma headers_values_delete_same:
  "same_name n m \<Longrightarrow> headers_values (headers_delete h n) m = []"
  by (induction h) (auto simp: headers_values_def headers_delete_def same_name_def)

lemma headers_values_delete_other:
  "\<not> same_name n m \<Longrightarrow> headers_values (headers_delete h n) m = headers_values h m"
  by (induction h) (auto simp: headers_values_def headers_delete_def same_name_def)

lemma headers_values_set_same:
  "same_name n m \<Longrightarrow> headers_values (headers_set h n v) m = [v]"
proof (induction h)
  case Nil
  then show ?case by (simp add: headers_values_def)
next
  case (Cons e h)
  show ?case
  proof (cases "same_name (fst e) n")
    case True
    with Cons.prems have "same_name (fst e) m" by (simp add: same_name_def)
    with True Cons.prems show ?thesis
      using headers_values_delete_same [of n m h]
      by (simp add: headers_values_def)
  next
    case False
    with Cons.prems have "\<not> same_name (fst e) m" by (simp add: same_name_def)
    with False Cons show ?thesis by (simp add: headers_values_def)
  qed
qed

lemma headers_values_set_other:
  "\<not> same_name n m \<Longrightarrow> headers_values (headers_set h n v) m = headers_values h m"
proof (induction h)
  case Nil
  then show ?case by (simp add: headers_values_def same_name_def)
next
  case (Cons e h)
  show ?case
  proof (cases "same_name (fst e) n")
    case True
    with Cons.prems have "\<not> same_name (fst e) m" by (auto simp: same_name_def)
    with True Cons.prems show ?thesis
      using headers_values_delete_other [of n m h]
      by (simp add: headers_values_def)
  next
    case False
    with Cons show ?thesis by (simp add: headers_values_def)
  qed
qed

lemma headers_values_append:
  "headers_values (headers_append h n v) m =
     headers_values h m @ (if same_name n m then [v] else [])"
  by (simp add: headers_values_def headers_append_def)

lemma headers_values_foldl_append:
  "headers_values (foldl (\<lambda>h' x. headers_append h' n (f x)) h xs) m =
     headers_values h m @ (if same_name n m then map f xs else [])"
  by (induction xs arbitrary: h) (auto simp: headers_values_append)

lemma headers_get_cong:
  "headers_values h n = headers_values h' n \<Longrightarrow> headers_get h n = headers_get h' n"
  by (simp add: headers_get_def)

lemma headers_get_None: "headers_get h n = None \<longleftrightarrow> headers_values h n = []"
  by (simp add: headers_get_def split: list.splits)

lemma names_differ:
  "\<not> same_name ''Location'' ''Set-Cookie''"
  "\<not> same_name ''Location'' ''Content-Security-Policy''"
  "\<not> same_name ''Location'' ''Strict-Transport-Security''"
  "\<not> same_name ''Set-Cookie'' ''Location''"
  "\<not> same_name ''Set-Cookie'' ''Content-Security-Policy''"
  "\<not> same_name ''Set-Cookie'' ''Strict-Transport-Security''"
  "\<not> same_name ''Content-Security-Policy'' ''Location''"
  "\<not> same_name ''Content-Security-Policy'' ''Set-Cookie''"
  "\<not> same_name ''Content-Security-Policy'' ''Strict-Transport-Security''"
  "\<not> same_name ''Strict-Transport-Security'' ''Location''"
  "\<not> same_name ''Strict-Transport-Security'' ''Set-Cookie''"
  "\<not> same_name ''Strict-Transport-Security'' ''Content-Security-Policy''"
  by (simp_all add: same_name_def)

lemma same_name_refl: "same_name n n"
  by (simp add: same_name_def)

section \<open>The steps of postMiddleware, header by header\<close>

lemma rewrite_Location_other:
  "\<not> same_name ''Location'' m \<Longrightarrow>
     headers_values (rewrite_Location newURL a h) m = headers_values h m"
  by (simp add: rewrite_Location_def headers_values_set_other split: option.splits)

lemma rewrite_SetCookie_other:
  "\<not> same_name ''Set-Cookie'' m \<Longrightarrow>
     headers_values (rewrite_SetCookie t h) m = headers_values h m"
  by (simp add: rewrite_SetCookie_def Let_def headers_values_foldl_append
      headers_values_delete_other headers_values_set_other split: option.splits)

lemma getSetCookie_rewrite_SetCookie:
  "getSetCookie (rewrite_SetCookie t h) =
     map (\<lambda>cki. replace_Domain cki (''; Domain='' @ t)) (getSetCookie h)"
proof (cases "getSetCookie h = []")
  case True
  then have "headers_get h ''Set-Cookie'' = None"
    by (simp add: headers_get_None getSetCookie_def)
  with True show ?thesis by (simp add: rewrite_SetCookie_def)
next
  case False
  then show ?thesis
    by (simp add: rewrite_SetCookie_def getSetCookie_def headers_values_foldl_append
        headers_values_delete_same same_name_refl)
qed

lemma patch_CSP_other:
  "\<not> same_name ''Content-Security-Policy'' m \<Longrightarrow> \<not> same_name ''Strict-Transport-Security'' m \<Longrightarrow>
     headers_values (patch_CSP t h) m = headers_values h m"
  by (simp add: patch_CSP_def headers_values_delete_other headers_values_set_other
      split: option.splits)

lemma patch_CSP_no_HSTS:
  "headers_values (patch_CSP t h) ''Strict-Transport-Security'' = []"
  by (simp add: patch_CSP_def headers_values_delete_same same_name_refl)

section \<open>Replacement text without a dollar sign\<close>

lemma getSubstitution_plain:
  "CHR ''$'' \<notin> set t \<Longrightarrow> getSubstitution m b a t = t"
  by (induction m b a t rule: getSubstitution.induct) auto

lemma replaceAll_from_self:
  "repl = pat \<Longrightarrow> CHR ''$'' \<notin> set pat \<Longrightarrow> replaceAll_from pat repl b s = s"
proof (induction pat repl b s rule: replaceAll_from.induct)
  case (1 pat repl b s)
  show ?case
  proof (cases "prefix pat s")
    case True
    then obtain r where s: "s = pat @ r" by (auto elim: prefixE)
    show ?thesis
    proof (cases "pat = []")
      case pe: True
      show ?thesis
      proof (cases s)
        case Nil
        with pe "1.prems" show ?thesis by (subst replaceAll_from.simps) simp
      next
        case (Cons c cs)
        with pe True 1 show ?thesis by (subst replaceAll_from.simps) simp
      qed
    next
      case False
      with True 1 s show ?thesis
        by (subst replaceAll_from.simps) (simp add: getSubstitution_plain)
    qed
  next
    case False
    show ?thesis
    proof (cases s)
      case Nil
      with False show ?thesis by (subst replaceAll_from.simps) simp
    next
      case (Cons c cs)
      with False 1 show ?thesis by (subst replaceAll_from.simps) simp
    qed
  qed
qed

lemma replaceAll_self: "CHR ''$'' \<notin> set t \<Longrightarrow> replaceAll s t t = s"
  by (simp add: replaceAll_def replaceAll_from_self)

section \<open>The cookie expression\<close>

lemma takeWhile_append_stop: "\<not> P y \<Longrightarrow> takeWhile P (xs @ y # ys) = takeWhile P xs"
  by (induction xs) auto

lemma dropWhile_append_stop: "\<not> P y \<Longrightarrow> dropWhile P (xs @ y # ys) = dropWhile P xs @ y # ys"
  by (induction xs) auto

lemma semicolon_no_space: "\<not> is_space (CHR '';'')"
  by (simp add: is_space_def)

lemma semicolon_lower: "ascii_lower (CHR '';'') = CHR '';''"
  by (simp add: ascii_lower_def)

lemma no_semicolon_in_Domain:
  assumes "map ascii_lower w = ''domain=''"
  shows "CHR '';'' \<notin> set w"
proof
  assume "CHR '';'' \<in> set w"
  then have "ascii_lower (CHR '';'') \<in> set (map ascii_lower w)" by (simp del: semicolon_lower)
  with assms show False by (simp add: semicolon_lower)
qed

lemma match_Domain_append:
  assumes "s \<noteq> []"
  shows "match_Domain (s @ CHR '';'' # x) = match_Domain s"
proof -
  from assms obtain c r where s: "s = c # r" by (cases s) auto
  define r1 where "r1 = dropWhile is_space r"
  have tw: "takeWhile is_space (r @ CHR '';'' # x) = takeWhile is_space r"
    by (rule takeWhile_append_stop) (rule semicolon_no_space)
  have dw: "dropWhile is_space (r @ CHR '';'' # x) = r1 @ CHR '';'' # x"
    unfolding r1_def by (rule dropWhile_append_stop) (rule semicolon_no_space)
  show ?thesis
  proof (cases "7 \<le> length r1")
    case True
    then have "take 7 (r1 @ CHR '';'' # x) = take 7 r1"
      and "drop 7 (r1 @ CHR '';'' # x) = drop 7 r1 @ CHR '';'' # x"
      by simp_all
    then show ?thesis
      by (simp add: s match_Domain_def tw dw Let_def takeWhile_append_stop flip: r1_def)
  next
    case False
    then obtain k where "7 - length r1 = Suc k" by (cases "7 - length r1") auto
    then have mem: "CHR '';'' \<in> set (take 7 (r1 @ CHR '';'' # x))" by simp
    have a: "map ascii_lower (take 7 (r1 @ CHR '';'' # x)) \<noteq> ''domain=''"
    proof
      assume eq: "map ascii_lower (take 7 (r1 @ CHR '';'' # x)) = ''domain=''"
      from no_semicolon_in_Domain [OF eq] mem show False by (rule notE)
    qed
    have b: "map ascii_lower (take 7 r1) \<noteq> ''domain=''"
    proof
      assume "map ascii_lower (take 7 r1) = ''domain=''"
      then have "length (map ascii_lower (take 7 r1)) = length ''domain=''" by (rule arg_cong)
      with False show False by simp
    qed
    from a b show ?thesis
      by (simp add: s match_Domain_def tw dw Let_def flip: r1_def)
  qed
qed

lemma search_Domain_append:
  assumes "search_Domain b pre = None" and "match_Domain (CHR '';'' # x) = Some n"
  shows "search_Domain b (pre @ CHR '';'' # x) =
           Some (b @ pre, take n (CHR '';'' # x), drop n (CHR '';'' # x))"
  using assms
proof (induction pre arbitrary: b)
  case Nil
  then show ?case by simp
next
  case (Cons c cs)
  from Cons.prems(1) have m: "match_Domain (c # cs) = None"
    and r: "search_Domain (b @ [c]) cs = None"
    by (auto split: option.splits)
  from m have "match_Domain ((c # cs) @ CHR '';'' # x) = None"
    by (simp only: match_Domain_append [of "c # cs" x] list.simps simp_thms)
  with Cons.IH [OF r Cons.prems(2)] show ?case by simp
qed

lemma match_Domain_attribute:
  assumes "list_all is_space ws" and "map ascii_lower nm = ''domain=''"
    and "v \<noteq> []" and "CHR '';'' \<notin> set v" and "post = [] \<or> hd post = CHR '';''"
  shows "match_Domain (CHR '';'' # ws @ nm @ v @ post) = Some (length (CHR '';'' # ws @ nm @ v))"
proof -
  from assms(2) have len: "length nm = 7"
    using length_map [of ascii_lower nm] by simp
  then obtain d nm' where nm: "nm = d # nm'" by (cases nm) auto
  have "ascii_lower d = CHR ''d''" using assms(2) by (simp add: nm)
  then have nd: "\<not> is_space d"
    by (auto simp: is_space_def ascii_lower_def Let_def split: if_splits)
  have tw: "takeWhile is_space (ws @ nm @ v @ post) = ws"
    using assms(1) nd by (simp add: nm takeWhile_append2 list_all_iff)
  have dw: "dropWhile is_space (ws @ nm @ v @ post) = nm @ v @ post"
    using assms(1) nd by (simp add: nm dropWhile_append2 list_all_iff)
  have v: "takeWhile (\<lambda>x. x \<noteq> CHR '';'') (v @ post) = v"
  proof (cases post)
    case Nil
    with assms(4) show ?thesis by auto
  next
    case (Cons p ps)
    with assms(5) have "p = CHR '';''" by simp
    with assms(4) Cons show ?thesis by (auto simp: takeWhile_append_stop)
  qed
  show ?thesis
    using assms(2,3) len by (simp add: match_Domain_def tw dw v Let_def)
qed

lemma replace_Domain_attribute:
  assumes "CHR ''$'' \<notin> set repl" and "search_Domain [] pre = None"
    and "list_all is_space ws" and "map ascii_lower nm = ''domain=''"
    and "v \<noteq> []" and "CHR '';'' \<notin> set v" and "post = [] \<or> hd post = CHR '';''"
  shows "replace_Domain (pre @ '';'' @ ws @ nm @ v @ post) repl = pre @ repl @ post"
proof -
  let ?n = "length (CHR '';'' # ws @ nm @ v)"
  have m: "match_Domain (CHR '';'' # ws @ nm @ v @ post) = Some ?n"
    using assms(3-7) by (rule match_Domain_attribute)
  have "search_Domain [] (pre @ CHR '';'' # ws @ nm @ v @ post) =
          Some ([] @ pre, take ?n (CHR '';'' # ws @ nm @ v @ post),
                drop ?n (CHR '';'' # ws @ nm @ v @ post))"
    using assms(2) m by (rule search_Domain_append)
  then show ?thesis
    using assms(1) by (simp add: replace_Domain_def getSubstitution_plain)
qed

lemma replace_Domain_none: "search_Domain [] s = None \<Longrightarrow> replace_Domain s repl = s"
  by (simp add: replace_Domain_def)

section \<open>Running the parser\<close>

lemmas parser_defs =
  parse_url_def parse_with_def url_char_def split_scheme_def scheme_char_def is_alpha_def
  is_digit_def lower_defs special_scheme_def is_special_def parse_relative_def
  parse_absolute_def split_at_def parse_authority_path_def valid_host_def port_value_def
  has_dot_segment_def canonical_port_def default_port_def Let_def

lemmas url_defs =
  href_def host_def hostname_def protocol_def pathname_def search_def hash_def set_host_def
  set_hostname_def set_pathname_def set_search_def has_opaque_path_def https_url_def

lemma parse_target_y:
  "parse_url ''https://target.com/y'' (Some ''https://target.com'') =
     Some (https_url ''target.com'' ''/y'')"
  by (simp add: parser_defs url_defs)

lemma parse_target_config:
  "parse_url ''https://target.com'' None = Some (https_url ''target.com'' ''/'')"
  by (simp add: parser_defs url_defs)

lemma parse_alias_page:
  "parse_url ''https://alias.com/page'' None = Some (https_url ''alias.com'' ''/page'')"
  by (simp add: parser_defs url_defs)

lemma parse_no_scheme: "parse_url ''httpbin.org'' None = None"
  by (simp add: parser_defs)

lemma normalize_target:
  "normailzeUrl parse_url (UrlString ''https://target.com'') = Some (https_url ''target.com'' ''/'')"
  by (simp add: normailzeUrl_def parse_target_config)
     (simp add:  parser_defs url_defs)

section \<open>The transport security header\<close>

text \<open>
  Claim C7: whatever the rest of the chain answered, the headers that \<open>postMiddleware\<close>
  leaves have no \<^verbatim>\<open>Strict-Transport-Security\<close> entry.
\<close>

theorem postMiddleware_drops_HSTS:
  "headers_get (headers (res (postMiddleware newURL e next c))) ''Strict-Transport-Security'' = None"
  by (simp add: postMiddleware_def Let_def headers_get_None patch_CSP_no_HSTS)

theorem postMiddleware_drops_HSTS_witness:
  "headers_get
     (headers (res (respond \<lparr>status = 200, body = ''ok'',
        headers = [(''Strict-Transport-Security'', ''max-age=63072000''),
                   (''Content-Type'', ''text/plain'')]\<rparr> example_ctx)))
     ''Strict-Transport-Security'' = Some ''max-age=63072000'' \<and>
   headers_get
     (headers (res (postMiddleware parse_url example_env
        (respond \<lparr>status = 200, body = ''ok'',
           headers = [(''Strict-Transport-Security'', ''max-age=63072000''),
                      (''Content-Type'', ''text/plain'')]\<rparr>) example_ctx)))
     ''Strict-Transport-Security'' = None"
  using postMiddleware_drops_HSTS [of parse_url example_env
      "respond \<lparr>status = 200, body = ''ok'',
         headers = [(''Strict-Transport-Security'', ''max-age=63072000''),
                    (''Content-Type'', ''text/plain'')]\<rparr>" example_ctx]
  by (simp add: example_defs headers_defs)


section \<open>The content security policy\<close>

lemma headers_get_set_same: "headers_get (headers_set h n v) n = Some v"
  by (simp add: headers_get_def headers_values_set_same same_name_refl)

text \<open>
  Claim C8: when the policy contains the configured target domain, the policy that
  \<open>postMiddleware\<close> leaves is the one it found. The configured domain is a host or an
  origin, so it has no dollar sign, which the replacement text would expand.
\<close>

theorem postMiddleware_CSP_identity:
  assumes "CHR ''$'' \<notin> set (TARGET_DOMAIN e)"
    and "headers_get (headers (res (next c))) ''Content-Security-Policy'' = Some csp"
    and "str_includes csp (TARGET_DOMAIN e)"
  shows "headers_get (headers (res (postMiddleware newURL e next c)))
           ''Content-Security-Policy'' = Some csp"
proof -
  define h2 where
    "h2 = rewrite_SetCookie (TARGET_DOMAIN e)
            (rewrite_Location newURL (hostname (var_targetURL (next c))) (headers (res (next c))))"
  have "headers_values h2 ''Content-Security-Policy'' =
          headers_values (headers (res (next c))) ''Content-Security-Policy''"
    by (simp add: h2_def rewrite_SetCookie_other rewrite_Location_other names_differ)
  then have "headers_get h2 ''Content-Security-Policy'' = Some csp"
    using assms(2) by (simp add: headers_get_def)
  then have "patch_CSP (TARGET_DOMAIN e) h2 =
               headers_delete (headers_set h2 ''Content-Security-Policy'' csp)
                 ''Strict-Transport-Security''"
    using assms(1,3) by (simp add: patch_CSP_def replaceAll_self)
  then have "headers_values (patch_CSP (TARGET_DOMAIN e) h2) ''Content-Security-Policy'' = [csp]"
    by (simp add: headers_values_delete_other headers_values_set_same names_differ same_name_refl)
  then show ?thesis
    by (simp add: postMiddleware_def Let_def headers_get_def flip: h2_def)
qed

theorem postMiddleware_CSP_identity_witness:
  "CHR ''$'' \<notin> set (TARGET_DOMAIN example_env) \<and>
   str_includes ''default-src https://target.com; img-src *'' (TARGET_DOMAIN example_env) \<and>
   headers_get
     (headers (res (postMiddleware parse_url example_env
        (respond \<lparr>status = 200, body = ''ok'',
           headers = [(''Content-Security-Policy'', ''default-src https://target.com; img-src *'')]\<rparr>)
        example_ctx)))
     ''Content-Security-Policy'' = Some ''default-src https://target.com; img-src *''"
proof -
  have 1: "CHR ''$'' \<notin> set (TARGET_DOMAIN example_env)"
    by (simp add: example_env_def)
  have 2: "headers_get
      (headers (res (respond \<lparr>status = 200, body = ''ok'',
         headers = [(''Content-Security-Policy'', ''default-src https://target.com; img-src *'')]\<rparr>
         example_ctx)))
      ''Content-Security-Policy'' = Some ''default-src https://target.com; img-src *''"
    by (simp add: example_defs headers_defs)
  have 3: "str_includes ''default-src https://target.com; img-src *'' (TARGET_DOMAIN example_env)"
    by (simp add: example_env_def)
  from 1 3
    postMiddleware_CSP_identity [of example_env
      "respond \<lparr>status = 200, body = ''ok'',
         headers = [(''Content-Security-Policy'', ''default-src https://target.com; img-src *'')]\<rparr>"
      example_ctx "''default-src https://target.com; img-src *''" parse_url, OF 1 2 3]
  show ?thesis by simp
qed

section \<open>The host check\<close>

text \<open>
  Claim C5: with a configuration whose two domains parse, a request whose host name is
  not the alias's is answered 403 \<^verbatim>\<open>Not allowed\<close>; the answer does not depend on the rest
  of the chain, which is never run, and nothing else of the context changes.
\<close>

theorem preMiddleware_rejects_other_host:
  assumes "newURL (req_url req) None = Some reqUrl"
    and "normailzeUrl newURL (UrlString (ALIAS_DOMAIN e)) = Some aliasDomain"
    and "normailzeUrl newURL (UrlString (TARGET_DOMAIN e)) = Some targetURL"
    and "hostname reqUrl \<noteq> hostname aliasDomain"
  shows "preMiddleware newURL e req next c =
           Inr (c\<lparr>res := (res c)\<lparr>status := 403, body := ''Not allowed''\<rparr>\<rparr>)"
  using assms by (simp add: preMiddleware_def c_text_def)

lemma parse_unauthorized:
  "parse_url ''https://unauthorized.com/test'' None = Some (https_url ''unauthorized.com'' ''/test'')"
  by (simp add: parser_defs url_defs)

lemma normalize_alias:
  "normailzeUrl parse_url (UrlString ''alias.com'') = Some (https_url ''alias.com'' ''/'')"
  by (simp add: normailzeUrl_def) (simp add: parser_defs url_defs)

theorem preMiddleware_rejects_other_host_witness:
  "preMiddleware parse_url example_env
     \<lparr>req_url = ''https://unauthorized.com/test'', req_headers = []\<rparr>
     (respond \<lparr>status = 200, body = ''Hello World'', headers = []\<rparr>) example_ctx =
   Inr (example_ctx\<lparr>res := \<lparr>status = 403, body = ''Not allowed'', headers = []\<rparr>\<rparr>)"
proof -
  have 1: "parse_url (req_url \<lparr>req_url = ''https://unauthorized.com/test'', req_headers = []\<rparr>) None
             = Some (https_url ''unauthorized.com'' ''/test'')"
    by (simp add: parse_unauthorized)
  have 2: "normailzeUrl parse_url (UrlString (ALIAS_DOMAIN example_env)) =
             Some (https_url ''alias.com'' ''/'')"
    by (simp add: example_env_def normalize_alias)
  have 3: "normailzeUrl parse_url (UrlString (TARGET_DOMAIN example_env)) =
             Some (https_url ''target.com'' ''/'')"
    by (simp add: example_env_def normalize_target)
  have 4: "hostname (https_url ''unauthorized.com'' ''/test'') \<noteq> hostname (https_url ''alias.com'' ''/'')"
    by (simp add: hostname_def https_url_def)
  show ?thesis
    using preMiddleware_rejects_other_host [OF 1 2 3 4]
    by (simp add: example_ctx_def)
qed

text \<open>
  Claim C10: with a configuration whose two domains parse, the request goes on to the
  rest of the chain exactly when its host name is that of the normalised alias; the scheme
  and the port of the request play no part.
\<close>

theorem preMiddleware_compares_hostnames:
  assumes "newURL (req_url req) None = Some reqUrl"
    and "normailzeUrl newURL (UrlString (ALIAS_DOMAIN e)) = Some aliasDomain"
    and "normailzeUrl newURL (UrlString (TARGET_DOMAIN e)) = Some targetURL"
  shows "preMiddleware newURL e req next c =
           (if hostname reqUrl = hostname aliasDomain then
              Inr (next (c\<lparr>var_requestURL := reqUrl,
                            var_targetURL :=
                              set_search (set_pathname targetURL (pathname reqUrl)) (search reqUrl)\<rparr>))
            else Inr (c_text c ''Not allowed'' 403))"
  using assms by (simp add: preMiddleware_def Let_def)

lemma parse_localhost_8787:
  "parse_url ''http://localhost:8787/x?y=1'' None =
     Some \<lparr>url_scheme = ''http'', url_username = [], url_password = [],
           url_host = Some ''localhost'', url_port = ''8787'', url_path = ''/x'',
           url_query = Some ''y=1'', url_fragment = None\<rparr>"
  by (simp add: parser_defs)

lemma normalize_localhost:
  "normailzeUrl parse_url (UrlString ''localhost'') = Some (https_url ''localhost'' ''/'')"
  by (simp add: normailzeUrl_def) (simp add: parser_defs url_defs)

theorem preMiddleware_compares_hostnames_witness:
  "preMiddleware parse_url
     \<lparr>ALIAS_DOMAIN = ''localhost'', TARGET_DOMAIN = ''https://target.com'',
      ENVIRONMENT = ''development''\<rparr>
     \<lparr>req_url = ''http://localhost:8787/x?y=1'', req_headers = []\<rparr>
     (respond \<lparr>status = 200, body = ''Hello World'', headers = []\<rparr>) example_ctx =
   Inr \<lparr>res = \<lparr>status = 200, body = ''Hello World'', headers = []\<rparr>,
        var_targetURL = (https_url ''target.com'' ''/x'')\<lparr>url_query := Some ''y=1''\<rparr>,
        var_requestURL =
          \<lparr>url_scheme = ''http'', url_username = [], url_password = [],
           url_host = Some ''localhost'', url_port = ''8787'', url_path = ''/x'',
           url_query = Some ''y=1'', url_fragment = None\<rparr>,
        var_forwardHeaders = []\<rparr>"
proof -
  have 1: "parse_url (req_url \<lparr>req_url = ''http://localhost:8787/x?y=1'', req_headers = []\<rparr>) None =
     Some \<lparr>url_scheme = ''http'', url_username = [], url_password = [],
           url_host = Some ''localhost'', url_port = ''8787'', url_path = ''/x'',
           url_query = Some ''y=1'', url_fragment = None\<rparr>"
    by (simp add: parse_localhost_8787)
  have 2: "normailzeUrl parse_url (UrlString (ALIAS_DOMAIN
       \<lparr>ALIAS_DOMAIN = ''localhost'', TARGET_DOMAIN = ''https://target.com'',
        ENVIRONMENT = ''development''\<rparr>)) = Some (https_url ''localhost'' ''/'')"
    by (simp add: normalize_localhost)
  have 3: "normailzeUrl parse_url (UrlString (TARGET_DOMAIN
       \<lparr>ALIAS_DOMAIN = ''localhost'', TARGET_DOMAIN = ''https://target.com'',
        ENVIRONMENT = ''development''\<rparr>)) = Some (https_url ''target.com'' ''/'')"
    by (simp add: normalize_target)
  show ?thesis
    using preMiddleware_compares_hostnames [OF 1 2 3]
    by (simp add: example_defs url_defs)
qed


section \<open>The cookies\<close>

lemma getSetCookie_postMiddleware:
  "getSetCookie (headers (res (postMiddleware newURL e next c))) =
     map (\<lambda>cki. replace_Domain cki (''; Domain='' @ TARGET_DOMAIN e))
       (getSetCookie (headers (res (next c))))"
proof -
  have "getSetCookie (headers (res (postMiddleware newURL e next c))) =
          getSetCookie (rewrite_SetCookie (TARGET_DOMAIN e)
            (rewrite_Location newURL (hostname (var_targetURL (next c))) (headers (res (next c)))))"
    by (simp add: postMiddleware_def Let_def getSetCookie_def patch_CSP_other names_differ)
  also have "\<dots> = map (\<lambda>cki. replace_Domain cki (''; Domain='' @ TARGET_DOMAIN e))
      (getSetCookie (rewrite_Location newURL (hostname (var_targetURL (next c)))
         (headers (res (next c)))))"
    by (rule getSetCookie_rewrite_SetCookie)
  also have "getSetCookie (rewrite_Location newURL (hostname (var_targetURL (next c)))
         (headers (res (next c)))) = getSetCookie (headers (res (next c)))"
    by (simp add: getSetCookie_def rewrite_Location_other names_differ)
  finally show ?thesis .
qed

text \<open>
  The loop over the cookies, cookie by cookie: \<open>postMiddleware\<close> keeps the number and
  the order of the \<^verbatim>\<open>Set-Cookie\<close> values and applies the expression of the loop to
  each. Where the expression matches first, the match is replaced and the text around it
  stays; a cookie that it does not match is not changed.
\<close>

lemma postMiddleware_SetCookie_each:
  assumes "CHR ''$'' \<notin> set (TARGET_DOMAIN e)"
  shows "getSetCookie (headers (res (postMiddleware newURL e next c))) =
           map (\<lambda>cki. replace_Domain cki (''; Domain='' @ TARGET_DOMAIN e))
             (getSetCookie (headers (res (next c)))) \<and>
         (\<forall>pre ws nm v post.
            search_Domain [] pre = None \<and> list_all is_space ws \<and>
            map ascii_lower nm = ''domain='' \<and> v \<noteq> [] \<and> CHR '';'' \<notin> set v \<and>
            (post = [] \<or> hd post = CHR '';'') \<longrightarrow>
            replace_Domain (pre @ '';'' @ ws @ nm @ v @ post) (''; Domain='' @ TARGET_DOMAIN e) =
              pre @ ''; Domain='' @ TARGET_DOMAIN e @ post) \<and>
         (\<forall>cki. search_Domain [] cki = None \<longrightarrow>
            replace_Domain cki (''; Domain='' @ TARGET_DOMAIN e) = cki)"
proof -
  from assms have d: "CHR ''$'' \<notin> set (''; Domain='' @ TARGET_DOMAIN e)" by simp
  have "replace_Domain (pre @ '';'' @ ws @ nm @ v @ post) (''; Domain='' @ TARGET_DOMAIN e) =
          pre @ ''; Domain='' @ TARGET_DOMAIN e @ post"
    if "search_Domain [] pre = None" "list_all is_space ws" "map ascii_lower nm = ''domain=''"
      "v \<noteq> []" "CHR '';'' \<notin> set v" "post = [] \<or> hd post = CHR '';''"
    for pre ws nm v post
    using replace_Domain_attribute [OF d that] by simp
  then show ?thesis
    by (intro conjI allI impI) (simp_all add: getSetCookie_postMiddleware replace_Domain_none)
qed

lemmas cookie_defs =
  replace_Domain_def match_Domain_def is_space_def lower_defs Let_def

text \<open>
  Claim C6 asks for any \<^verbatim>\<open>Domain\<close> attribute of every cookie to be replaced. The
  expression in the loop over the cookies has the flag \<^verbatim>\<open>i\<close> and not \<^verbatim>\<open>g\<close>: the
  first attribute of a cookie is replaced and a second one stays. The expression of the
  other branch, for a header that \<^verbatim>\<open>getSetCookie\<close> does not report, has both flags and
  replaces the two.
\<close>

theorem postMiddleware_SetCookie_second_Domain_stays:
  "getSetCookie
     (headers (res (postMiddleware parse_url example_env
        (respond \<lparr>status = 200, body = ''ok'',
           headers = [(''Set-Cookie'', ''a=b; Domain=x.example; Domain=y.example'')]\<rparr>)
        example_ctx))) =
     [''a=b; Domain=https://target.com; Domain=y.example''] \<and>
   replace_Domain_g ''a=b; Domain=x.example; Domain=y.example''
     (''; Domain='' @ TARGET_DOMAIN example_env) =
     ''a=b; Domain=https://target.com; Domain=https://target.com''"
  by (simp add: getSetCookie_postMiddleware replace_Domain_g_def)
     (simp add: example_defs getSetCookie_def headers_defs cookie_defs)


section \<open>The canonical link\<close>

lemma headers_c_header: "headers (res (c_header c n v)) = headers_set (headers (res c)) n v"
  by (simp add: c_header_def)

lemma search_set_search: "search (set_search u (search r)) = search r"
  by (auto simp: search_def set_search_def split: option.splits)

text \<open>
  Claim C2, as amended: when \<open>headersMiddleware\<close> returns, the headers of the response
  are either those that the rest of the chain left, or those with the \<^verbatim>\<open>Link\<close> header
  set to the canonical form of a URL, in angle brackets and followed by
  \<^verbatim>\<open>; rel="canonical"\<close>. That URL has the scheme, the credentials, the host and the port
  of \<^verbatim>\<open>TARGET_DOMAIN\<close> and the query of the request. Its path is that of the request when
  \<^verbatim>\<open>TARGET_DOMAIN\<close> is a URL with a hierarchical path; a \<^verbatim>\<open>TARGET_DOMAIN\<close> with an
  opaque path, such as \<^verbatim>\<open>localhost:3000\<close>, keeps its own. The statement does not say for
  which requests the header is set.
\<close>

theorem headersMiddleware_Link_form:
  assumes "headersMiddleware newURL e req next c = Inr c'"
  shows "headers (res c') =
           headers (res (next (c_header c ''X-Robots-Tag''
             ''noindex, nofollow, noarchive, nosnippet''))) \<or>
         (\<exists>reqUrl maskedURL m.
            newURL (req_url req) None = Some reqUrl \<and>
            newURL (TARGET_DOMAIN e) None = Some maskedURL \<and>
            m = set_search (set_pathname maskedURL (pathname reqUrl)) (search reqUrl) \<and>
            headers (res c') =
              headers_set
                (headers (res (next (c_header c ''X-Robots-Tag''
                   ''noindex, nofollow, noarchive, nosnippet''))))
                ''Link'' (''<'' @ href m @ ''>; rel='' @ [CHR 0x22] @ ''canonical'' @ [CHR 0x22]) \<and>
            url_scheme m = url_scheme maskedURL \<and> url_username m = url_username maskedURL \<and>
            url_password m = url_password maskedURL \<and> url_host m = url_host maskedURL \<and>
            url_port m = url_port maskedURL \<and> search m = search reqUrl \<and>
            (\<not> has_opaque_path maskedURL \<and> prefix ''/'' (pathname reqUrl) \<longrightarrow>
               pathname m = pathname reqUrl) \<and>
            (has_opaque_path maskedURL \<longrightarrow> pathname m = pathname maskedURL))"
proof -
  define H where "H = headers (res (next (c_header c ''X-Robots-Tag''
      ''noindex, nofollow, noarchive, nosnippet'')))"
  have form: "url_scheme m = url_scheme maskedURL \<and> url_username m = url_username maskedURL \<and>
      url_password m = url_password maskedURL \<and> url_host m = url_host maskedURL \<and>
      url_port m = url_port maskedURL \<and> search m = search reqUrl \<and>
      (\<not> has_opaque_path maskedURL \<and> prefix ''/'' (pathname reqUrl) \<longrightarrow>
         pathname m = pathname reqUrl) \<and>
      (has_opaque_path maskedURL \<longrightarrow> pathname m = pathname maskedURL)"
    if "m = set_search (set_pathname maskedURL (pathname reqUrl)) (search reqUrl)"
    for m maskedURL reqUrl
  proof -
    have "search m = search reqUrl"
      by (simp add: that search_set_search)
    moreover have "url_scheme m = url_scheme maskedURL \<and> url_username m = url_username maskedURL \<and>
      url_password m = url_password maskedURL \<and> url_host m = url_host maskedURL \<and>
      url_port m = url_port maskedURL"
      by (simp add: that set_search_def set_pathname_def)
    moreover have "\<not> has_opaque_path maskedURL \<and> prefix ''/'' (pathname reqUrl) \<longrightarrow>
         pathname m = pathname reqUrl"
      by (auto simp: that set_search_def set_pathname_def pathname_def)
    moreover have "has_opaque_path maskedURL \<longrightarrow> pathname m = pathname maskedURL"
      by (simp add: that set_search_def set_pathname_def pathname_def)
    ultimately show ?thesis by simp
  qed
  from assms obtain reqUrl where r: "newURL (req_url req) None = Some reqUrl"
    by (auto simp: headersMiddleware_def Let_def split: option.splits)
  show ?thesis
  proof (cases "headers (res c') = H")
    case True
    then show ?thesis by (simp add: H_def)
  next
    case False
    with assms r obtain maskedURL where t: "newURL (TARGET_DOMAIN e) None = Some maskedURL"
      and h: "headers (res c') = headers_set H ''Link''
          (''<'' @ href (set_search (set_pathname maskedURL (pathname reqUrl)) (search reqUrl)) @
           ''>; rel='' @ [CHR 0x22] @ ''canonical'' @ [CHR 0x22])"
      by (auto simp: headersMiddleware_def Let_def headers_c_header H_def
          split: option.splits if_splits)
    from r t h form [OF refl, of maskedURL reqUrl] show ?thesis
      unfolding H_def by blast
  qed
qed

lemma headersMiddleware_example:
  "headersMiddleware parse_url example_env
     \<lparr>req_url = ''https://alias.com/page'', req_headers = [(''content-type'', ''text/html'')]\<rparr>
     (respond \<lparr>status = 200, body = ''ok'', headers = []\<rparr>) example_ctx =
   Inr (example_ctx\<lparr>
     res := \<lparr>status = 200, body = ''ok'',
             headers = [(''X-Robots-Tag'', ''noindex, nofollow, noarchive, nosnippet''),
                        (''Link'', ''<https://target.com/page>; rel='' @ [CHR 0x22] @
                                    ''canonical'' @ [CHR 0x22])]\<rparr>,
     var_forwardHeaders := [(''content-type'', ''text/html''),
                            (''X-Forwarded-Host'', ''alias.com''),
                            (''X-Forwarded-Proto'', ''https'')]\<rparr>)"
  by (simp add: headersMiddleware_def parse_alias_page example_env_def parse_target_config
      Let_def headers_defs headers_delete_def url_defs example_defs)

theorem headersMiddleware_Link_form_witness:
  "headers (res (case headersMiddleware parse_url example_env
        \<lparr>req_url = ''https://alias.com/page'', req_headers = [(''content-type'', ''text/html'')]\<rparr>
        (respond \<lparr>status = 200, body = ''ok'', headers = []\<rparr>) example_ctx of
          Inr c' \<Rightarrow> c' | Inl x \<Rightarrow> example_ctx)) =
   headers_set [(''X-Robots-Tag'', ''noindex, nofollow, noarchive, nosnippet'')] ''Link''
     (''<'' @ href (https_url ''target.com'' ''/page'') @ ''>; rel='' @ [CHR 0x22] @
      ''canonical'' @ [CHR 0x22]) \<and>
   url_host (https_url ''target.com'' ''/page'') = url_host (https_url ''target.com'' ''/'') \<and>
   pathname (https_url ''target.com'' ''/page'') = pathname (https_url ''alias.com'' ''/page'')"
proof -
  let ?C = "example_ctx\<lparr>
     res := \<lparr>status = 200, body = ''ok'',
             headers = [(''X-Robots-Tag'', ''noindex, nofollow, noarchive, nosnippet''),
                        (''Link'', ''<https://target.com/page>; rel='' @ [CHR 0x22] @
                                    ''canonical'' @ [CHR 0x22])]\<rparr>,
     var_forwardHeaders := [(''content-type'', ''text/html''),
                            (''X-Forwarded-Host'', ''alias.com''),
                            (''X-Forwarded-Proto'', ''https'')]\<rparr>"
  have H: "headers (res (respond \<lparr>status = 200, body = ''ok'', headers = []\<rparr>
      (c_header example_ctx ''X-Robots-Tag'' ''noindex, nofollow, noarchive, nosnippet''))) =
      [(''X-Robots-Tag'', ''noindex, nofollow, noarchive, nosnippet'')]"
    by (simp add: example_defs headers_defs)
  have ne: "headers (res ?C) \<noteq> [(''X-Robots-Tag'', ''noindex, nofollow, noarchive, nosnippet'')]"
    by simp
  from headersMiddleware_Link_form [OF headersMiddleware_example] ne
  obtain reqUrl maskedURL m where
    "parse_url (req_url \<lparr>req_url = ''https://alias.com/page'',
        req_headers = [(''content-type'', ''text/html'')]\<rparr>) None = Some reqUrl"
    and "parse_url (TARGET_DOMAIN example_env) None = Some maskedURL"
    and m: "m = set_search (set_pathname maskedURL (pathname reqUrl)) (search reqUrl)"
    and h: "headers (res ?C) =
       headers_set [(''X-Robots-Tag'', ''noindex, nofollow, noarchive, nosnippet'')] ''Link''
         (''<'' @ href m @ ''>; rel='' @ [CHR 0x22] @ ''canonical'' @ [CHR 0x22])"
    and hst: "url_host m = url_host maskedURL"
    and pth: "\<not> has_opaque_path maskedURL \<and> prefix ''/'' (pathname reqUrl) \<longrightarrow>
               pathname m = pathname reqUrl"
    unfolding H by blast
  then have r: "reqUrl = https_url ''alias.com'' ''/page''"
    and t: "maskedURL = https_url ''target.com'' ''/''"
    by (simp_all add: parse_alias_page example_env_def parse_target_config)
  have mm: "m = https_url ''target.com'' ''/page''"
    by (simp add: m r t url_defs)
  from h hst pth show ?thesis
    unfolding mm r t by (simp add: headersMiddleware_example url_defs)
qed

text \<open>
  The claim as it was stated gives the link the authority of the request, the alias. It
  has that of the target.
\<close>

theorem headersMiddleware_Link_counterexample:
  "headersMiddleware parse_url example_env
     \<lparr>req_url = ''https://alias.com/page'', req_headers = [(''content-type'', ''text/html'')]\<rparr>
     (respond \<lparr>status = 200, body = ''ok'', headers = []\<rparr>) example_ctx =
   Inr (example_ctx\<lparr>
     res := \<lparr>status = 200, body = ''ok'',
             headers = [(''X-Robots-Tag'', ''noindex, nofollow, noarchive, nosnippet''),
                        (''Link'', ''<https://target.com/page>; rel='' @ [CHR 0x22] @
                                    ''canonical'' @ [CHR 0x22])]\<rparr>,
     var_forwardHeaders := [(''content-type'', ''text/html''),
                            (''X-Forwarded-Host'', ''alias.com''),
                            (''X-Forwarded-Proto'', ''https'')]\<rparr>) \<and>
   ''<https://target.com/page>; rel='' @ [CHR 0x22] @ ''canonical'' @ [CHR 0x22] \<noteq>
   ''<https://alias.com/page>; rel='' @ [CHR 0x22] @ ''canonical'' @ [CHR 0x22]"
  by (simp add: headersMiddleware_def parse_alias_page example_env_def parse_target_config
      Let_def headers_defs headers_delete_def url_defs example_defs)


section \<open>What the URL rewrite returns\<close>

lemma is_subdomain_append: "sub \<noteq> [] \<Longrightarrow> is_subdomain (sub @ CHR ''.'' # m) m"
  by (simp add: is_subdomain_def)

lemma not_self_subdomain: "sub @ CHR ''.'' # m \<noteq> m"
proof
  assume "sub @ CHR ''.'' # m = m"
  then have "length (sub @ CHR ''.'' # m) = length m" by (rule arg_cong)
  then show False by simp
qed

lemmas scheme_defs = split_scheme_def scheme_char_def is_alpha_def is_digit_def lower_defs Let_def

lemma split_scheme_data:
  assumes "prefix ''data:'' s"
  shows "split_scheme s = Some (''data'', drop 5 s)"
proof -
  from assms obtain x where "s = ''data:'' @ x"
    by (auto elim!: prefixE)
  then show ?thesis
    by (simp add: scheme_defs)
qed

lemma http_has_scheme:
  assumes "split_scheme s = Some (sc, rest)" and "sc = ''http'' \<or> sc = ''https''"
  shows "has_scheme s" and "\<not> prefix ''data:'' s"
proof -
  from assms(1) show "has_scheme s"
    by (simp add: has_scheme_def)
  show "\<not> prefix ''data:'' s"
  proof
    assume "prefix ''data:'' s"
    then have "split_scheme s = Some (''data'', drop 5 s)"
      by (rule split_scheme_data)
    with assms show False by auto
  qed
qed

lemma parse_httpbin_query:
  "parse_url ''https://httpbin.org/api/test?param=value#fragment''
     (Some (href (https_url ''httpbin.org'' ''/''))) =
   Some ((https_url ''httpbin.org'' ''/api/test'')
           \<lparr>url_query := Some ''param=value'', url_fragment := Some ''fragment''\<rparr>)"
  by (simp add: parser_defs url_defs)

lemma parse_httpbin_api:
  "parse_url ''https://api.httpbin.org/test'' (Some (href (https_url ''httpbin.org'' ''/''))) =
   Some (https_url ''api.httpbin.org'' ''/test'')"
  by (simp add: parser_defs url_defs)

lemma parse_httpbin_api_test:
  "parse_url ''https://httpbin.org/api/test'' (Some (href (https_url ''httpbin.org'' ''/''))) =
   Some (https_url ''httpbin.org'' ''/api/test'')"
  by (simp add: parser_defs url_defs)

lemma parse_httpbin_bare:
  "parse_url ''https://httpbin.org'' (Some (href (https_url ''httpbin.org'' ''/''))) =
   Some (https_url ''httpbin.org'' ''/'')"
  by (simp add: parser_defs url_defs)

lemma parse_relative_api_test:
  "parse_url ''/api/test'' (Some (href (https_url ''httpbin.org'' ''/''))) =
   Some (https_url ''httpbin.org'' ''/api/test'')"
  by (simp add: parser_defs url_defs)

lemma parse_protocol_relative:
  "parse_url ''//httpbin.org/api/test'' (Some (href (https_url ''httpbin.org'' ''/''))) =
   Some (https_url ''httpbin.org'' ''/api/test'')"
  by (simp add: parser_defs url_defs)

lemma parse_ftp:
  "parse_url ''ftp://httpbin.org/file.txt'' (Some (href (https_url ''httpbin.org'' ''/''))) =
   Some ((https_url ''httpbin.org'' ''/file.txt'')\<lparr>url_scheme := ''ftp''\<rparr>)"
  by (simp add: parser_defs url_defs)

lemma parse_example_com:
  "parse_url ''https://example.com/api/test'' (Some (href (https_url ''httpbin.org'' ''/''))) =
   Some (https_url ''example.com'' ''/api/test'')"
  by (simp add: parser_defs url_defs)


lemmas rewrite_defs = convertToMaskedURL_def has_scheme_def scheme_defs url_defs is_subdomain_def

text \<open>
  The model answers the ten cases of the repository's unit test of
  \<^verbatim>\<open>convertToMaskedURL\<close> as the test expects, with \<^verbatim>\<open>https://httpbin.org\<close> masked and
  a request to \<^verbatim>\<open>https://example.com\<close>.
\<close>

lemma convertToMaskedURL_unit_tests:
  "convertToMaskedURL parse_url ''https://httpbin.org/api/test''
     (https_url ''httpbin.org'' ''/'') (https_url ''example.com'' ''/'') =
     ''https://example.com/api/test''"
  "convertToMaskedURL parse_url ''/api/test''
     (https_url ''httpbin.org'' ''/'') (https_url ''example.com'' ''/'') =
     ''https://example.com/api/test''"
  "convertToMaskedURL parse_url ''//httpbin.org/api/test''
     (https_url ''httpbin.org'' ''/'') (https_url ''example.com'' ''/'') =
     ''https://example.com/api/test''"
  "convertToMaskedURL parse_url ''https://httpbin.org/api/test''
     (https_url ''httpbin.org'' ''/'')
     \<lparr>url_scheme = ''http'', url_username = [], url_password = [],
      url_host = Some ''localhost'', url_port = ''8787'', url_path = ''/'',
      url_query = None, url_fragment = None\<rparr> =
     ''http://localhost:8787/api/test''"
  "convertToMaskedURL parse_url ''https://example.com/api/test''
     (https_url ''httpbin.org'' ''/'') (https_url ''example.com'' ''/'') =
     ''https://example.com/api/test''"
  "convertToMaskedURL parse_url
     ''data:image/png;base64,iVBORw0KGgoAAAANSUhEUgAAAAEAAAABCAYAAAAfFcSJAAAADUlEQVR42mNkYPhfDwAChwGA60e6kgAAAABJRU5ErkJggg==''
     (https_url ''httpbin.org'' ''/'') (https_url ''example.com'' ''/'') =
     ''data:image/png;base64,iVBORw0KGgoAAAANSUhEUgAAAAEAAAABCAYAAAAfFcSJAAAADUlEQVR42mNkYPhfDwAChwGA60e6kgAAAABJRU5ErkJggg==''"
  "convertToMaskedURL parse_url ''ftp://httpbin.org/file.txt''
     (https_url ''httpbin.org'' ''/'') (https_url ''example.com'' ''/'') =
     ''ftp://httpbin.org/file.txt''"
  "convertToMaskedURL parse_url ''not-a-valid-url''
     (https_url ''httpbin.org'' ''/'') (https_url ''example.com'' ''/'') = ''not-a-valid-url''"
  "convertToMaskedURL parse_url ''https://httpbin.org/api/test?param=value#fragment''
     (https_url ''httpbin.org'' ''/'') (https_url ''example.com'' ''/'') =
     ''https://example.com/api/test?param=value#fragment''"
  "convertToMaskedURL parse_url ''https://api.httpbin.org/test''
     (https_url ''httpbin.org'' ''/'') (https_url ''example.com'' ''/'') =
     ''https://api.example.com/test''"
  by (simp_all add: convertToMaskedURL_def has_scheme_def scheme_defs parse_httpbin_api_test
      parse_relative_api_test parse_protocol_relative parse_example_com parse_ftp
      parse_httpbin_query parse_httpbin_api)
     (simp_all add: url_defs is_subdomain_def)

text \<open>
  Claim C3, as amended: an absolute URL string with the scheme \<^verbatim>\<open>http\<close> or \<^verbatim>\<open>https\<close>
  that resolves to the masked host name is rewritten to the scheme, host and port of the
  request URL, followed by the path, query and fragment of the input, byte for byte where
  the resolver returns them as the input spells them. When the resolved host name is
  \<open>sub.masked\<close>, the host of the result is \<open>sub.\<close> followed by the request's host.
\<close>

theorem convertToMaskedURL_absolute:
  assumes "split_scheme originalUrl = Some (sc, rest)"
    and "sc = ''http'' \<or> sc = ''https''"
    and "newURL originalUrl (Some (href maskedURL)) = Some r"
    and "protocol r = ''http:'' \<or> protocol r = ''https:''"
    and "pathname r @ search r @ hash r = path_query_fragment originalUrl"
  shows "(hostname r = hostname maskedURL \<longrightarrow>
            convertToMaskedURL newURL originalUrl maskedURL reqURL =
              protocol reqURL @ ''//'' @ host reqURL @ path_query_fragment originalUrl) \<and>
         (\<forall>sub. sub \<noteq> [] \<and> hostname r = sub @ ''.'' @ hostname maskedURL \<longrightarrow>
            convertToMaskedURL newURL originalUrl maskedURL reqURL =
              protocol reqURL @ ''//'' @ sub @ ''.'' @ host reqURL @
                path_query_fragment originalUrl)"
proof (intro conjI allI impI)
  note abs = http_has_scheme [OF assms(1,2)]
  assume "hostname r = hostname maskedURL"
  with assms(3,4) abs show "convertToMaskedURL newURL originalUrl maskedURL reqURL =
      protocol reqURL @ ''//'' @ host reqURL @ path_query_fragment originalUrl"
    by (auto simp: convertToMaskedURL_def simp flip: assms(5))
next
  note abs = http_has_scheme [OF assms(1,2)]
  fix sub
  assume a: "sub \<noteq> [] \<and> hostname r = sub @ ''.'' @ hostname maskedURL"
  then have "hostname r \<noteq> hostname maskedURL"
    and "is_subdomain (hostname r) (hostname maskedURL)"
    and "take (length (hostname r) - length (hostname maskedURL)) (hostname r) = sub @ ''.''"
    by (simp_all add: not_self_subdomain is_subdomain_append)
  with assms(3,4) abs show "convertToMaskedURL newURL originalUrl maskedURL reqURL =
      protocol reqURL @ ''//'' @ sub @ ''.'' @ host reqURL @ path_query_fragment originalUrl"
    by (auto simp: convertToMaskedURL_def simp flip: assms(5))
qed

theorem convertToMaskedURL_absolute_witness:
  "convertToMaskedURL parse_url ''https://httpbin.org/api/test?param=value#fragment''
     (https_url ''httpbin.org'' ''/'')
     \<lparr>url_scheme = ''http'', url_username = [], url_password = [],
      url_host = Some ''localhost'', url_port = ''8787'', url_path = ''/'',
      url_query = None, url_fragment = None\<rparr> =
     ''http://localhost:8787'' @ ''/api/test?param=value#fragment'' \<and>
   convertToMaskedURL parse_url ''https://api.httpbin.org/test''
     (https_url ''httpbin.org'' ''/'') (https_url ''example.com'' ''/'') =
     ''https://api.example.com'' @ ''/test''"
proof -
  have 1: "split_scheme ''https://httpbin.org/api/test?param=value#fragment'' =
             Some (''https'', ''//httpbin.org/api/test?param=value#fragment'')"
    and 2: "split_scheme ''https://api.httpbin.org/test'' =
              Some (''https'', ''//api.httpbin.org/test'')"
    by (simp_all add: scheme_defs)
  have s: "''https'' = ''http'' \<or> ''https'' = ''https''"
    by simp
  have 3: "protocol ((https_url ''httpbin.org'' ''/api/test'')
      \<lparr>url_query := Some ''param=value'', url_fragment := Some ''fragment''\<rparr>) = ''http:'' \<or>
     protocol ((https_url ''httpbin.org'' ''/api/test'')
      \<lparr>url_query := Some ''param=value'', url_fragment := Some ''fragment''\<rparr>) = ''https:''"
    and 4: "protocol (https_url ''api.httpbin.org'' ''/test'') = ''http:'' \<or>
       protocol (https_url ''api.httpbin.org'' ''/test'') = ''https:''"
    by (simp_all add: url_defs)
  have t1: "path_query_fragment ''https://httpbin.org/api/test?param=value#fragment'' =
              ''/api/test?param=value#fragment''"
    and t2: "path_query_fragment ''https://api.httpbin.org/test'' = ''/test''"
    by (simp_all add: path_query_fragment_def scheme_defs)
  have 5: "pathname ((https_url ''httpbin.org'' ''/api/test'')
        \<lparr>url_query := Some ''param=value'', url_fragment := Some ''fragment''\<rparr>) @
      search ((https_url ''httpbin.org'' ''/api/test'')
        \<lparr>url_query := Some ''param=value'', url_fragment := Some ''fragment''\<rparr>) @
      hash ((https_url ''httpbin.org'' ''/api/test'')
        \<lparr>url_query := Some ''param=value'', url_fragment := Some ''fragment''\<rparr>) =
      path_query_fragment ''https://httpbin.org/api/test?param=value#fragment''"
    and 6: "pathname (https_url ''api.httpbin.org'' ''/test'') @
      search (https_url ''api.httpbin.org'' ''/test'') @ hash (https_url ''api.httpbin.org'' ''/test'') =
      path_query_fragment ''https://api.httpbin.org/test''"
    by (simp_all add: t1 t2 url_defs)
  have 7: "hostname ((https_url ''httpbin.org'' ''/api/test'')
      \<lparr>url_query := Some ''param=value'', url_fragment := Some ''fragment''\<rparr>) =
       hostname (https_url ''httpbin.org'' ''/'')"
    and 8: "''api'' \<noteq> [] \<and>
       hostname (https_url ''api.httpbin.org'' ''/test'') =
         ''api'' @ ''.'' @ hostname (https_url ''httpbin.org'' ''/'')"
    by (simp_all add: url_defs)
  from convertToMaskedURL_absolute [of "''https://httpbin.org/api/test?param=value#fragment''"
      _ _ parse_url "https_url ''httpbin.org'' ''/''" _
      "\<lparr>url_scheme = ''http'', url_username = [], url_password = [],
        url_host = Some ''localhost'', url_port = ''8787'', url_path = ''/'',
        url_query = None, url_fragment = None\<rparr>", OF 1 s parse_httpbin_query 3 5] 7
  have a: "convertToMaskedURL parse_url ''https://httpbin.org/api/test?param=value#fragment''
     (https_url ''httpbin.org'' ''/'')
     \<lparr>url_scheme = ''http'', url_username = [], url_password = [],
      url_host = Some ''localhost'', url_port = ''8787'', url_path = ''/'',
      url_query = None, url_fragment = None\<rparr> =
     ''http://localhost:8787'' @ ''/api/test?param=value#fragment''"
    by (simp add: t1 url_defs)
  from convertToMaskedURL_absolute [of "''https://api.httpbin.org/test''"
      _ _ parse_url "https_url ''httpbin.org'' ''/''" _ "https_url ''example.com'' ''/''",
      OF 2 s parse_httpbin_api 4 6] 8
  have "convertToMaskedURL parse_url ''https://api.httpbin.org/test''
     (https_url ''httpbin.org'' ''/'') (https_url ''example.com'' ''/'') =
     protocol (https_url ''example.com'' ''/'') @ ''//'' @ ''api'' @ ''.'' @
       host (https_url ''example.com'' ''/'') @ path_query_fragment ''https://api.httpbin.org/test''"
    by blast
  then have b: "convertToMaskedURL parse_url ''https://api.httpbin.org/test''
     (https_url ''httpbin.org'' ''/'') (https_url ''example.com'' ''/'') =
     ''https://api.example.com'' @ ''/test''"
    by (simp add: t2 url_defs)
  from a b show ?thesis by (rule conjI)
qed

text \<open>
  The claim as it was stated gives every absolute URL on the masked host, or below it, the
  scheme and the host of the request and the path of the input. For a host name below the
  masked one the unit test of the repository expects the labels to stay; the resolver
  gives a URL without a path the path \<^verbatim>\<open>/\<close>, which the input does not have; and a URL
  of another scheme than \<^verbatim>\<open>http\<close> and \<^verbatim>\<open>https\<close> is not rewritten at all.
\<close>

theorem convertToMaskedURL_absolute_counterexample:
  "convertToMaskedURL parse_url ''https://api.httpbin.org/test''
     (https_url ''httpbin.org'' ''/'') (https_url ''example.com'' ''/'') =
     ''https://api.example.com/test'' \<and>
   host (https_url ''example.com'' ''/'') = ''example.com'' \<and>
   convertToMaskedURL parse_url ''https://httpbin.org''
     (https_url ''httpbin.org'' ''/'') (https_url ''example.com'' ''/'') =
     ''https://example.com/'' \<and>
   path_query_fragment ''https://httpbin.org'' = [] \<and>
   path_query_fragment ''https://example.com/'' = ''/'' \<and>
   convertToMaskedURL parse_url ''ftp://httpbin.org/file.txt''
     (https_url ''httpbin.org'' ''/'') (https_url ''example.com'' ''/'') =
     ''ftp://httpbin.org/file.txt''"
  by (simp add: convertToMaskedURL_def has_scheme_def scheme_defs parse_httpbin_api
      parse_httpbin_bare parse_ftp path_query_fragment_def)
     (simp add: url_defs is_subdomain_def)




section \<open>Where the code leaves the specification\<close>

text \<open>
  The context of the examples is the one \<open>preMiddleware\<close> hands on for a request of
  \<^verbatim>\<open>https://alias.com/x\<close>, whatever the two variables held before.
\<close>

lemma parse_alias_x:
  "parse_url ''https://alias.com/x'' None = Some (https_url ''alias.com'' ''/x'')"
  by (simp add: parser_defs url_defs)

lemma preMiddleware_example:
  "preMiddleware parse_url example_env \<lparr>req_url = ''https://alias.com/x'', req_headers = []\<rparr>
     (\<lambda>c. c) (example_ctx\<lparr>var_targetURL := u, var_requestURL := v\<rparr>) = Inr example_ctx"
  by (simp add: preMiddleware_def parse_alias_x example_env_def normalize_alias normalize_target
      Let_def)
     (simp add: url_defs example_ctx_def)

lemma parse_login:
  "parse_url ''/login'' (Some ''https://target.com'') = Some (https_url ''target.com'' ''/login'')"
  by (simp add: parser_defs url_defs)

text \<open>
  Claim C1 asks for a redirect to the target to come out as a redirect to the alias. The
  host name that \<open>postMiddleware\<close> writes into \<^verbatim>\<open>Location\<close> is that of the variable
  \<^verbatim>\<open>targetURL\<close>: a redirect to \<^verbatim>\<open>https://target.com/y\<close> stays as it is, and a relative
  redirect gets the target's origin in front.
\<close>

theorem postMiddleware_Location_names_target:
  "headers_get
     (headers (res (postMiddleware parse_url example_env
        (respond \<lparr>status = 302, body = [], headers = [(''Location'', ''https://target.com/y'')]\<rparr>)
        example_ctx)))
     ''Location'' = Some ''https://target.com/y'' \<and>
   headers_get
     (headers (res (postMiddleware parse_url example_env
        (respond \<lparr>status = 302, body = [], headers = [(''Location'', ''/login'')]\<rparr>)
        example_ctx)))
     ''Location'' = Some ''https://target.com/login''"
proof -
  have "headers_values
     (headers (res (postMiddleware parse_url example_env (respond r) example_ctx))) ''Location'' =
     headers_values (rewrite_Location parse_url ''target.com'' (headers r)) ''Location''" for r
    by (simp add: postMiddleware_def Let_def patch_CSP_other rewrite_SetCookie_other names_differ
        example_defs url_defs)
  then show ?thesis
    by (simp add: headers_get_def)
       (simp add: rewrite_Location_def headers_defs headers_delete_def parse_target_y
         parse_login eqHost_def strip_www_def url_defs)
qed

text \<open>
  Claim C9 asks for a \<^verbatim>\<open>TARGET_DOMAIN\<close> without a scheme to behave as the same domain
  with \<^verbatim>\<open>https://\<close> in front. \<open>preMiddleware\<close> normalises it, but \<open>headersMiddleware\<close>
  hands the configured string to the URL constructor as it is, which throws on a string
  without a scheme.
\<close>

theorem headersMiddleware_throws_without_scheme:
  "normailzeUrl parse_url (UrlString ''httpbin.org'') =
     normailzeUrl parse_url (UrlString ''https://httpbin.org'') \<and>
   normailzeUrl parse_url (UrlString ''httpbin.org'') = Some (https_url ''httpbin.org'' ''/'') \<and>
   headersMiddleware parse_url
     \<lparr>ALIAS_DOMAIN = ''test.example.com'', TARGET_DOMAIN = ''httpbin.org'', ENVIRONMENT = ''test''\<rparr>
     \<lparr>req_url = ''https://test.example.com/page'', req_headers = [(''content-type'', ''text/html'')]\<rparr>
     next c = Inl TypeError \<and>
   headersMiddleware parse_url
     \<lparr>ALIAS_DOMAIN = ''test.example.com'', TARGET_DOMAIN = ''https://httpbin.org'',
      ENVIRONMENT = ''test''\<rparr>
     \<lparr>req_url = ''https://test.example.com/page'', req_headers = [(''content-type'', ''text/html'')]\<rparr>
     next c \<noteq> Inl TypeError"
proof -
  have p: "parse_url ''https://test.example.com/page'' None =
             Some (https_url ''test.example.com'' ''/page'')"
    by (simp add: parser_defs url_defs)
  have t: "parse_url ''https://httpbin.org'' None = Some (https_url ''httpbin.org'' ''/'')"
    by (simp add: parser_defs url_defs)
  have t': "parse_url ''https://httpbin.org/'' None = Some (https_url ''httpbin.org'' ''/'')"
    by (simp add: parser_defs url_defs)
  have n: "normailzeUrl parse_url (UrlString ''httpbin.org'') = Some (https_url ''httpbin.org'' ''/'')"
    "normailzeUrl parse_url (UrlString ''https://httpbin.org'') = Some (https_url ''httpbin.org'' ''/'')"
    by (simp_all add: normailzeUrl_def t) (simp_all add: url_defs t')
  have c: "headers_get [(''content-type'', ''text/html'')] ''content-type'' = Some ''text/html''"
    by (simp add: headers_defs)
  show ?thesis
    by (simp add: n headersMiddleware_def Let_def p t c parse_no_scheme)
qed


end
